theory Spec2Isabelle
  imports Complex_Main "HOL-Library.AList"
begin

section \<open>Strings and ANSI-code stripping\<close>

text \<open>
  A Python \<open>str\<close> is modelled as a \<open>string\<close> holding its UTF-8 bytes. Every character
  class of the pattern in \<open>remove_ansi_codes\<close> lies below \<open>0x80\<close> and no byte of a
  multi-byte UTF-8 sequence does, so the scanner below treats a code point beyond ASCII
  exactly as the regular expression treats it: as a character that matches nothing.

  The pattern is \<^verbatim>\<open>\x1B(?:[@-Z\\-_]|\[[0-?]*[ -/]*[@-~])\<close>. After the escape character it
  accepts either one character of \<^verbatim>\<open>[@-Z\\-_]\<close> (codes \<open>0x40..0x5A\<close> and \<open>0x5C..0x5F\<close>;
  the bracket \<open>0x5B\<close> is left out), or a bracket followed by parameter characters
  \<^verbatim>\<open>[0-?]*\<close>, intermediate characters \<^verbatim>\<open>[ -/]*\<close> and one final character \<^verbatim>\<open>[@-~]\<close>.
  The three classes of the second alternative are pairwise disjoint, so the greedy
  match is the only match and backtracking never finds another one.
\<close>

definition ESC :: char where
  "ESC = CHR 0x1B"

definition in_range :: "nat \<Rightarrow> nat \<Rightarrow> char \<Rightarrow> bool" where
  "in_range lo hi c = (lo \<le> of_char c \<and> of_char c \<le> hi)"

definition is_fe :: "char \<Rightarrow> bool" where
  \<comment> \<open>\<^verbatim>\<open>[@-Z\\-_]\<close>\<close>
  "is_fe c = (in_range 0x40 0x5A c \<or> in_range 0x5C 0x5F c)"

definition is_param :: "char \<Rightarrow> bool" where
  \<comment> \<open>\<^verbatim>\<open>[0-?]\<close>\<close>
  "is_param c = in_range 0x30 0x3F c"

definition is_inter :: "char \<Rightarrow> bool" where
  \<comment> \<open>\<^verbatim>\<open>[ -/]\<close>\<close>
  "is_inter c = in_range 0x20 0x2F c"

definition is_final :: "char \<Rightarrow> bool" where
  \<comment> \<open>\<^verbatim>\<open>[@-~]\<close>\<close>
  "is_final c = in_range 0x40 0x7E c"

text \<open>
  \<open>match_escape cs\<close> tries the part of the pattern that follows the escape character
  at the front of \<open>cs\<close>; it returns the text left after the match.
\<close>

definition match_escape :: "string \<Rightarrow> string option" where
  "match_escape cs =
     (case cs of
        [] \<Rightarrow> None
      | c # rest \<Rightarrow>
          if is_fe c then Some rest
          else if c = CHR ''['' then
            (case dropWhile is_inter (dropWhile is_param rest) of
               [] \<Rightarrow> None
             | f # rest' \<Rightarrow> if is_final f then Some rest' else None)
          else None)"

lemma match_escape_split:
  "match_escape cs = Some rest \<Longrightarrow> \<exists>pre. cs = pre @ rest \<and> pre \<noteq> []"
proof (cases cs)
  case Nil
  assume "match_escape cs = Some rest"
  with Nil show ?thesis by (simp add: match_escape_def)
next
  case (Cons c tl)
  assume m: "match_escape cs = Some rest"
  show ?thesis
  proof (cases "is_fe c")
    case True
    with m Cons have "rest = tl" by (simp add: match_escape_def)
    with Cons have "cs = [c] @ rest" by simp
    then show ?thesis by blast
  next
    case False
    let ?d = "dropWhile is_inter (dropWhile is_param tl)"
    from m Cons False obtain f where d: "?d = f # rest"
      by (auto simp: match_escape_def split: if_splits list.splits)
    have "tl = takeWhile is_param tl @ takeWhile is_inter (dropWhile is_param tl) @ ?d"
      by simp
    with d Cons have
      "cs = (c # takeWhile is_param tl @ takeWhile is_inter (dropWhile is_param tl) @ [f]) @ rest"
      by simp
    then show ?thesis by blast
  qed
qed

lemma match_escape_shorter:
  "match_escape cs = Some rest \<Longrightarrow> length rest < length cs"
proof -
  assume "match_escape cs = Some rest"
  then obtain pre where "cs = pre @ rest" and "pre \<noteq> []"
    using match_escape_split by blast
  then show ?thesis by (cases pre) auto
qed

text \<open>
  \<open>re.sub\<close> with an empty replacement: scan from the left; where the pattern matches,
  drop the match and go on behind it; elsewhere keep the character and go on with the
  next one.
\<close>

function sub_ansi :: "string \<Rightarrow> string" where
  "sub_ansi [] = []"
| "sub_ansi (c # cs) =
     (if c = ESC then
        (case match_escape cs of
           Some rest \<Rightarrow> sub_ansi rest
         | None \<Rightarrow> c # sub_ansi cs)
      else c # sub_ansi cs)"
  by pat_completeness auto
termination
  by (relation "measure length") (auto dest: match_escape_shorter)

definition remove_ansi_codes :: "string \<Rightarrow> string" where
  "remove_ansi_codes text = (if text = [] then text else sub_ansi text)"

text \<open>
  \<open>has_ansi s\<close>: the pattern matches somewhere in \<open>s\<close>.
  \<open>every_esc_matches s\<close>: each escape character of \<open>s\<close> starts a match of the pattern.
\<close>

fun has_ansi :: "string \<Rightarrow> bool" where
  "has_ansi [] = False"
| "has_ansi (c # cs) = ((c = ESC \<and> match_escape cs \<noteq> None) \<or> has_ansi cs)"

fun every_esc_matches :: "string \<Rightarrow> bool" where
  "every_esc_matches [] = True"
| "every_esc_matches (c # cs) =
     ((if c = ESC then match_escape cs \<noteq> None else True) \<and> every_esc_matches cs)"

lemma every_esc_matches_append:
  "every_esc_matches (pre @ rest) \<Longrightarrow> every_esc_matches rest"
  by (induction pre) (auto split: if_splits)

lemma sub_ansi_no_esc:
  "every_esc_matches s \<Longrightarrow> ESC \<notin> set (sub_ansi s)"
proof (induction s rule: sub_ansi.induct)
  case 1
  show ?case by simp
next
  case (2 c cs)
  show ?case
  proof (cases "c = ESC")
    case False
    with 2 show ?thesis by simp
  next
    case True
    with "2.prems" obtain rest where m: "match_escape cs = Some rest" by auto
    from m obtain pre where "cs = pre @ rest" using match_escape_split by blast
    with "2.prems" have "every_esc_matches rest"
      using every_esc_matches_append [of pre rest] by simp
    with True m "2.IH" show ?thesis by simp
  qed
qed

lemma sub_ansi_fixed: "ESC \<notin> set t \<Longrightarrow> sub_ansi t = t"
  by (induction t) auto

lemma no_esc_no_ansi: "ESC \<notin> set t \<Longrightarrow> \<not> has_ansi t"
  by (induction t) auto

lemma remove_ansi_codes_no_esc:
  "every_esc_matches s \<Longrightarrow> ESC \<notin> set (remove_ansi_codes s)"
  by (simp add: remove_ansi_codes_def sub_ansi_no_esc)

lemma remove_ansi_codes_fixed: "ESC \<notin> set t \<Longrightarrow> remove_ansi_codes t = t"
  by (simp add: remove_ansi_codes_def sub_ansi_fixed)

section \<open>Exceptions\<close>

text \<open>
  An exception is a value: its class, as far as the \<^verbatim>\<open>except\<close> clauses of the program tell
  classes apart, and the text \<^verbatim>\<open>str(e)\<close>. \<open>UnicodeError\<close> (with \<^verbatim>\<open>UnicodeDecodeError\<close>) is a
  subclass of \<open>ValueError\<close>; \<open>OtherException\<close> stands for every other subclass of
  \<^verbatim>\<open>Exception\<close>. \<^verbatim>\<open>KeyboardInterrupt\<close> and \<^verbatim>\<open>SystemExit\<close>, which are not subclasses of
  \<^verbatim>\<open>Exception\<close>, are outside the model.
\<close>

datatype py_class = ValueError | UnicodeError | FileNotFoundError | ImportError | OtherException

record py_exn =
  exn_class :: py_class
  exn_str :: string

definition isinstance_UnicodeError :: "py_exn \<Rightarrow> bool" where
  "isinstance_UnicodeError e = (exn_class e = UnicodeError)"

definition isinstance_ValueError :: "py_exn \<Rightarrow> bool" where
  "isinstance_ValueError e = (exn_class e = ValueError \<or> exn_class e = UnicodeError)"

definition isinstance_FileNotFoundError :: "py_exn \<Rightarrow> bool" where
  "isinstance_FileNotFoundError e = (exn_class e = FileNotFoundError)"

definition raise_exn :: "py_class \<Rightarrow> string \<Rightarrow> py_exn" where
  "raise_exn c msg = \<lparr>exn_class = c, exn_str = msg\<rparr>"

section \<open>Numbers\<close>

text \<open>
  A Python \<^verbatim>\<open>float\<close> (a clock reading, a number of megabytes) is modelled by a rational
  and \<^verbatim>\<open>round(x, n)\<close> by decimal rounding, half to even. \<^verbatim>\<open>str(k)\<close> of a counter is its
  decimal rendering.
\<close>

definition round_half_even :: "rat \<Rightarrow> int" where
  "round_half_even q =
     (let f = \<lfloor>q\<rfloor>; d = q - of_int f
      in if d < 1 / 2 then f else if 1 / 2 < d then f + 1 else if even f then f else f + 1)"

definition py_round :: "rat \<Rightarrow> nat \<Rightarrow> rat" where
  "py_round x n = of_int (round_half_even (x * 10 ^ n)) / 10 ^ n"

definition digit_char :: "nat \<Rightarrow> char" where
  "digit_char d = char_of (48 + d)"

fun str_nat :: "nat \<Rightarrow> string" where
  "str_nat n = (if n < 10 then [digit_char n] else str_nat (n div 10) @ [digit_char (n mod 10)])"

declare str_nat.simps [simp del]

section \<open>Objects of the interpreter\<close>

text \<open>
  The interpreter shell, its display formatter and the data-frame library are not part
  of the program. An object living in a session is modelled by what the program observes
  of it; an observation that can raise is a sum.
\<close>

datatype var_extra =
    NoExtra
  | FrameExtra "nat list" "string list option" "nat option"
  | ArrayExtra "nat list" "string option"
  | LengthExtra nat

record frame_info =
  fi_shape :: "nat list"
  fi_columns :: "string list"
  fi_dtypes :: "(string \<times> string) list"
  fi_memory_bytes :: nat

record pyobj =
  type_name :: string
    \<comment> \<open>\<^verbatim>\<open>type(value).__name__\<close>\<close>
  truthy :: bool
    \<comment> \<open>\<^verbatim>\<open>bool(value)\<close>\<close>
  str_of :: "py_exn + string"
    \<comment> \<open>\<^verbatim>\<open>str(value)\<close>\<close>
  display_format :: "py_exn + string option"
    \<comment> \<open>\<^verbatim>\<open>shell.display_formatter.format(value, include=['text/plain'])[0].get('text/plain')\<close>\<close>
  plain_format :: "py_exn + string option"
    \<comment> \<open>\<^verbatim>\<open>shell.display_formatter.formatters['text/plain'](value)\<close>\<close>
  to_string :: "(py_exn + string) option"
    \<comment> \<open>\<open>None\<close> without an attribute \<^verbatim>\<open>to_string\<close>, else what \<^verbatim>\<open>value.to_string()\<close> does\<close>
  has_array :: bool
    \<comment> \<open>\<^verbatim>\<open>hasattr(value, '__array__')\<close>\<close>
  getsizeof :: "py_exn + nat"
    \<comment> \<open>\<^verbatim>\<open>sys.getsizeof(value)\<close>\<close>
  has_module_attr :: bool
    \<comment> \<open>\<^verbatim>\<open>hasattr(value, '__module__')\<close>\<close>
  introspect :: "py_exn + var_extra"
    \<comment> \<open>what \<open>get_variables\<close> adds for the value: shape, columns and memory usage where it
        has \<^verbatim>\<open>shape\<close> and \<^verbatim>\<open>dtypes\<close>, shape and dtype where it has \<^verbatim>\<open>shape\<close> only, the length
        of a list, tuple, dict or set, nothing otherwise; or the exception raised on the way\<close>
  describe_frame :: "py_exn + frame_info"
    \<comment> \<open>\<^verbatim>\<open>df.dtypes\<close>, \<^verbatim>\<open>df.memory_usage(deep=True).sum()\<close>, \<^verbatim>\<open>df.shape\<close>, \<^verbatim>\<open>df.columns\<close>\<close>

record InteractiveShell =
  colors :: string
  user_ns :: "(string \<times> pyobj) list"
    \<comment> \<open>the namespace, a dictionary in insertion order\<close>

text \<open>One run of a cell: what it wrote, and the fields of the shell's result object.\<close>

record cell_run =
  run_stdout :: string
  run_stderr :: string
  run_result :: "pyobj option"
  run_error_in_exec :: "pyobj option"

datatype engine = openpyxl | xlrd

datatype sheet = SheetName string | SheetIndex int

text \<open>
  The environment: the module flags set by the guarded imports, the interpreter, the
  file system and the readers of the data-frame library.
\<close>

record env =
  IPYTHON_AVAILABLE :: bool
  PANDAS_AVAILABLE :: bool
  EXCEL_XLSX_AVAILABLE :: bool
  EXCEL_XLS_AVAILABLE :: bool
  PSUTIL_AVAILABLE :: bool
  run_cell :: "string \<Rightarrow> InteractiveShell \<Rightarrow> (py_exn + cell_run) \<times> InteractiveShell"
    \<comment> \<open>\<^verbatim>\<open>shell.run_cell(code)\<close>: the outcome and the shell after it\<close>
  format_exc :: "py_exn \<Rightarrow> string"
    \<comment> \<open>\<^verbatim>\<open>traceback.format_exc()\<close> while the exception is handled\<close>
  path_exists :: "string \<Rightarrow> bool"
  path_stem :: "string \<Rightarrow> string"
    \<comment> \<open>\<^verbatim>\<open>Path(file_path).stem\<close>\<close>
  path_suffix_lower :: "string \<Rightarrow> string"
    \<comment> \<open>\<^verbatim>\<open>Path(file_path).suffix.lower()\<close>\<close>
  try_read :: "string \<Rightarrow> string \<Rightarrow> py_exn option"
    \<comment> \<open>open the file with an encoding and read 1024 characters; \<open>None\<close> when it works\<close>
  read_csv :: "string \<Rightarrow> string \<Rightarrow> py_exn + pyobj"
  read_excel :: "string \<Rightarrow> sheet \<Rightarrow> engine option \<Rightarrow> py_exn + pyobj"
  read_json :: "string \<Rightarrow> py_exn + pyobj"

definition EXCEL_AVAILABLE :: "env \<Rightarrow> bool" where
  "EXCEL_AVAILABLE env = (EXCEL_XLSX_AVAILABLE env \<or> EXCEL_XLS_AVAILABLE env)"

section \<open>Execution results and sessions\<close>

record ExecutionResult =
  success :: bool
  execution_count :: nat
  stdout :: string
  stderr :: string
  result :: "string option"
  execution_time :: rat
  memory_delta_mb :: rat
  error :: "string option"

record history_entry =
  h_execution_count :: nat
  h_timestamp :: string
  h_code :: string
  h_success :: bool
  h_execution_time :: rat
  h_stdout :: string
  h_stderr :: string
  h_result :: "string option"
  h_error :: "string option"

text \<open>
  The field \<open>execution_count\<close> of the session is named \<open>execution_counter\<close> here, the name
  \<open>execution_count\<close> being the field of \<open>ExecutionResult\<close>. A \<^verbatim>\<open>datetime\<close> is identified
  with its \<^verbatim>\<open>isoformat()\<close>.
\<close>

record IPythonSession =
  session_id :: string
  created_at :: string
  last_used :: string
  execution_counter :: nat
  history :: "history_entry list"
  shell :: InteractiveShell

text \<open>What one call of \<open>execute\<close> reads from the clock and the process.\<close>

record exec_probe =
  now :: string
  t_start :: rat
  t_end :: rat
  rss_before :: "py_exn + nat"
  rss_after :: "py_exn + nat"

definition get_memory_usage :: "env \<Rightarrow> py_exn + nat \<Rightarrow> rat" where
  \<comment> \<open>\<^verbatim>\<open>_get_memory_usage\<close>\<close>
  "get_memory_usage env rss =
     (if \<not> PSUTIL_AVAILABLE env then 0
      else case rss of Inl e \<Rightarrow> 0 | Inr bytes \<Rightarrow> of_nat bytes / 1024 / 1024)"

definition format_fallback :: "pyobj \<Rightarrow> py_exn + string" where
  \<comment> \<open>the second \<^verbatim>\<open>try\<close> of \<^verbatim>\<open>_format_result\<close> and its handler\<close>
  "format_fallback obj =
     (case (case to_string obj of
              Some r \<Rightarrow> r
            | None \<Rightarrow> if has_array obj then str_of obj else str_of obj) of
        Inr s \<Rightarrow> Inr s
      | Inl e \<Rightarrow> str_of obj)"

definition format_result :: "pyobj option \<Rightarrow> py_exn + string option" where
  \<comment> \<open>\<^verbatim>\<open>_format_result\<close>\<close>
  "format_result result_obj =
     (case result_obj of
        None \<Rightarrow> Inr None
      | Some obj \<Rightarrow>
          (case display_format obj of
             Inr (Some formatted_result) \<Rightarrow>
               if formatted_result \<noteq> [] then Inr (Some formatted_result)
               else map_sum id Some (format_fallback obj)
           | Inr None \<Rightarrow> map_sum id Some (format_fallback obj)
           | Inl e \<Rightarrow> map_sum id Some (format_fallback obj)))"


definition py_bool :: "pyobj option \<Rightarrow> bool" where
  \<comment> \<open>the truth value of \<^verbatim>\<open>execution_result.error_in_exec\<close>\<close>
  "py_bool x = (case x of None \<Rightarrow> False | Some obj \<Rightarrow> truthy obj)"

definition error_message :: "pyobj option \<Rightarrow> py_exn + string option" where
  \<comment> \<open>\<^verbatim>\<open>error_msg\<close>: \<open>None\<close>, or the stripped \<^verbatim>\<open>str(error_in_exec)\<close>\<close>
  "error_message err =
     (if py_bool err then
        (case err of
           None \<Rightarrow> Inr None
         | Some obj \<Rightarrow>
             (case str_of obj of
                Inl e \<Rightarrow> Inl e
              | Inr s \<Rightarrow> Inr (Some (remove_ansi_codes s))))
      else Inr None)"

definition keep_last_100 :: "history_entry list \<Rightarrow> history_entry list" where
  \<comment> \<open>\<^verbatim>\<open>if len(self.history) > 100: self.history = self.history[-100:]\<close>\<close>
  "keep_last_100 h = (if length h > 100 then drop (length h - 100) h else h)"

definition msg_exec_error :: string where
  \<comment> \<open>the prefix of the message of the handler of \<open>execute\<close>, in UTF-8\<close>
  "msg_exec_error =
     [CHR 0xE6, CHR 0x89, CHR 0xA7, CHR 0xE8, CHR 0xA1, CHR 0x8C,
      CHR 0xE9, CHR 0x94, CHR 0x99, CHR 0xE8, CHR 0xAF, CHR 0xAF] @ '': ''"

definition exception_result :: "env \<Rightarrow> exec_probe \<Rightarrow> IPythonSession \<Rightarrow> py_exn \<Rightarrow> ExecutionResult" where
  \<comment> \<open>the \<^verbatim>\<open>except Exception as e\<close> branch of \<open>execute\<close> and \<open>execute_expression_only\<close>\<close>
  "exception_result env p s e =
     (let execution_time = t_end p - t_start p;
          error_msg = msg_exec_error @ exn_str e @ [CHR 0x0A] @ format_exc env e
      in \<lparr>success = False,
          execution_count = execution_counter s,
          stdout = [],
          stderr = [],
          result = None,
          execution_time = execution_time,
          memory_delta_mb = 0,
          error = Some (remove_ansi_codes error_msg)\<rparr>)"

text \<open>
  The body of the \<^verbatim>\<open>try\<close> of \<open>execute\<close>. It returns the session as the body left it: when
  the formatting of the result raises, the shell has run the cell and the counter has
  been incremented, and no history entry has been written.
\<close>

definition execute_try ::
  "env \<Rightarrow> exec_probe \<Rightarrow> rat \<Rightarrow> string \<Rightarrow> IPythonSession
     \<Rightarrow> (py_exn + ExecutionResult) \<times> IPythonSession" where
  "execute_try env p initial_memory code s =
     (let original_colors = colors (shell s)
      in case run_cell env code ((shell s)\<lparr>colors := ''NoColor''\<rparr>) of
           (Inl e, sh) \<Rightarrow> (Inl e, s\<lparr>shell := sh\<rparr>)
         | (Inr captured, sh) \<Rightarrow>
             (let s1 = s\<lparr>shell := sh\<lparr>colors := original_colors\<rparr>,
                         execution_counter := execution_counter s + 1\<rparr>;
                  execution_time = t_end p - t_start p;
                  current_memory = get_memory_usage env (rss_after p);
                  memory_delta = current_memory - initial_memory;
                  stdout' = remove_ansi_codes (run_stdout captured);
                  stderr' = remove_ansi_codes (run_stderr captured)
              in case format_result (run_result captured) of
                   Inl e \<Rightarrow> (Inl e, s1)
                 | Inr formatted_result \<Rightarrow>
                     (case error_message (run_error_in_exec captured) of
                        Inl e \<Rightarrow> (Inl e, s1)
                      | Inr error_msg \<Rightarrow>
                          (let history_entry =
                                 \<lparr>h_execution_count = execution_counter s1,
                                  h_timestamp = last_used s1,
                                  h_code = code,
                                  h_success = (\<not> py_bool (run_error_in_exec captured)),
                                  h_execution_time = execution_time,
                                  h_stdout = stdout',
                                  h_stderr = stderr',
                                  h_result = formatted_result,
                                  h_error = error_msg\<rparr>;
                               s2 = s1\<lparr>history := keep_last_100 (history s1 @ [history_entry])\<rparr>
                           in (Inr \<lparr>success = (\<not> py_bool (run_error_in_exec captured)),
                                    execution_count = execution_counter s2,
                                    stdout = stdout',
                                    stderr = stderr',
                                    result = formatted_result,
                                    execution_time = execution_time,
                                    memory_delta_mb = memory_delta,
                                    error = error_msg\<rparr>, s2)))))"

definition execute ::
  "env \<Rightarrow> exec_probe \<Rightarrow> string \<Rightarrow> IPythonSession \<Rightarrow> ExecutionResult \<times> IPythonSession" where
  "execute env p code s =
     (let s0 = s\<lparr>last_used := now p\<rparr>;
          initial_memory = get_memory_usage env (rss_before p)
      in case execute_try env p initial_memory code s0 of
           (Inr r, s') \<Rightarrow> (r, s')
         | (Inl e, s') \<Rightarrow> (exception_result env p s' e, s'))"



section \<open>Variables of a session\<close>

record var_info =
  vi_type :: string
  vi_size_bytes :: nat
  vi_extra :: var_extra

definition startswith_underscore :: "string \<Rightarrow> bool" where
  "startswith_underscore name = (case name of [] \<Rightarrow> False | c # cs \<Rightarrow> c = CHR ''_'')"

definition user_visible :: "string \<Rightarrow> bool" where
  \<comment> \<open>the filter of \<open>get_variables\<close>\<close>
  "user_visible name =
     (\<not> startswith_underscore name \<and>
      name \<notin> set [''In'', ''Out'', ''get_ipython'', ''exit'', ''quit''])"

definition inspect_variable :: "pyobj \<Rightarrow> var_info" where
  \<comment> \<open>the \<^verbatim>\<open>try\<close> in the loop of \<open>get_variables\<close> and its handler\<close>
  "inspect_variable v =
     (case getsizeof v of
        Inl e \<Rightarrow> \<lparr>vi_type = type_name v, vi_size_bytes = 0, vi_extra = NoExtra\<rparr>
      | Inr n \<Rightarrow>
          (case introspect v of
             Inl e \<Rightarrow> \<lparr>vi_type = type_name v, vi_size_bytes = 0, vi_extra = NoExtra\<rparr>
           | Inr x \<Rightarrow> \<lparr>vi_type = type_name v, vi_size_bytes = n, vi_extra = x\<rparr>))"

definition get_variables :: "IPythonSession \<Rightarrow> (string \<times> var_info) list" where
  "get_variables s =
     map (\<lambda>(name, v). (name, inspect_variable v))
       (filter (\<lambda>(name, v). user_visible name) (user_ns (shell s)))"

section \<open>The session manager\<close>

text \<open>
  The lock of the manager orders concurrent calls; the model is of one call at a time and
  leaves it out.
\<close>

record IPythonSessionManager =
  sessions :: "string \<rightharpoonup> IPythonSession"

text \<open>What the constructor of a session reads from outside: the fresh shell, the clock, the UUID.\<close>

record create_probe =
  cp_uuid4_hex :: string
  cp_created_at :: string
  cp_last_used :: string
  cp_new_shell :: "py_exn + InteractiveShell"

definition matplotlib_code :: string where
  "matplotlib_code = ''import matplotlib; matplotlib.use('' @ [CHR 0x27] @ ''Agg'' @ [CHR 0x27] @ '')''"

definition import_code :: string where
  "import_code =
     [CHR 0x0A] @
     ''            import pandas as pd'' @ [CHR 0x0A] @
     ''            import numpy as np'' @ [CHR 0x0A] @
     ''            import json'' @ [CHR 0x0A] @
     ''            import os'' @ [CHR 0x0A] @
     ''            import sys'' @ [CHR 0x0A] @
     ''            from pathlib import Path'' @ [CHR 0x0A] @
     ''            import warnings'' @ [CHR 0x0A] @
     ''            warnings.filterwarnings('' @ [CHR 0x27] @ ''ignore'' @ [CHR 0x27] @ '')'' @ [CHR 0x0A] @
     [CHR 0x0A] @
     ''            # '' @ [CHR 0xE8, CHR 0xAE, CHR 0xBE, CHR 0xE7, CHR 0xBD, CHR 0xAE] @ ''pandas'' @
       [CHR 0xE6, CHR 0x98, CHR 0xBE, CHR 0xE7, CHR 0xA4, CHR 0xBA, CHR 0xE9, CHR 0x80, CHR 0x89,
        CHR 0xE9, CHR 0xA1, CHR 0xB9, CHR 0x0A] @
     ''            pd.set_option('' @ [CHR 0x27] @ ''display.max_columns'' @ [CHR 0x27] @ '', None)'' @ [CHR 0x0A] @
     ''            pd.set_option('' @ [CHR 0x27] @ ''display.width'' @ [CHR 0x27] @ '', None)'' @ [CHR 0x0A] @
     ''            pd.set_option('' @ [CHR 0x27] @ ''display.max_colwidth'' @ [CHR 0x27] @ '', 100)'' @ [CHR 0x0A] @
     [CHR 0x0A] @
     ''            print('' @ [CHR 0x22, CHR 0xE2, CHR 0x9C, CHR 0x93] @ '' '' @
       [CHR 0xE5, CHR 0xB7, CHR 0xB2, CHR 0xE8, CHR 0x87, CHR 0xAA, CHR 0xE5, CHR 0x8A, CHR 0xA8,
        CHR 0xE5, CHR 0xAF, CHR 0xBC, CHR 0xE5, CHR 0x85, CHR 0xA5] @
       '': pandas, numpy, json, os, sys, pathlib'' @ [CHR 0x22] @ '')'' @ [CHR 0x0A] @
     ''            ''"

definition IPythonSession_init ::
  "env \<Rightarrow> create_probe \<Rightarrow> string \<Rightarrow> bool \<Rightarrow> py_exn + IPythonSession" where
  \<comment> \<open>\<^verbatim>\<open>IPythonSession.__init__\<close>. The two set-up cells run in a \<^verbatim>\<open>try\<close> whose handler goes
      on, so only the shell they leave counts. The \<^verbatim>\<open>verbose\<close> flag of the formatter and
      \<^verbatim>\<open>enable_gui\<close> are settings inside the shell, of which the model holds the colours
      and the namespace.\<close>
  "IPythonSession_init env cp sid auto_import =
     (if \<not> IPYTHON_AVAILABLE env then
        Inl (raise_exn ImportError ''IPython is required but not available'')
      else case cp_new_shell cp of
             Inl e \<Rightarrow> Inl e
           | Inr sh0 \<Rightarrow>
               (let sh1 = sh0\<lparr>colors := ''NoColor''\<rparr>;
                    sh2 = snd (run_cell env matplotlib_code sh1);
                    sh3 = (if auto_import then snd (run_cell env import_code sh2) else sh2)
                in Inr \<lparr>session_id = sid,
                        created_at = cp_created_at cp,
                        last_used = cp_last_used cp,
                        execution_counter = 0,
                        history = [],
                        shell = sh3\<rparr>))"

definition create_session ::
  "env \<Rightarrow> create_probe \<Rightarrow> IPythonSessionManager \<Rightarrow> string option \<Rightarrow> bool
     \<Rightarrow> (py_exn + string) \<times> IPythonSessionManager" where
  "create_session env cp m requested_id auto_import =
     (let sid = (case requested_id of
                   None \<Rightarrow> ''session_'' @ take 8 (cp_uuid4_hex cp)
                 | Some given \<Rightarrow> given)
      in if sessions m sid \<noteq> None then
           (Inl (raise_exn ValueError (''Session '' @ sid @ '' already exists'')), m)
         else case IPythonSession_init env cp sid auto_import of
                Inl e \<Rightarrow> (Inl e, m)
              | Inr session \<Rightarrow> (Inr sid, m\<lparr>sessions := (sessions m)(sid \<mapsto> session)\<rparr>))"

definition get_session :: "IPythonSessionManager \<Rightarrow> string \<Rightarrow> py_exn + IPythonSession" where
  "get_session m sid =
     (case sessions m sid of
        None \<Rightarrow> Inl (raise_exn ValueError (''Session '' @ sid @ '' not found''))
      | Some session \<Rightarrow> Inr session)"

definition delete_session :: "IPythonSessionManager \<Rightarrow> string \<Rightarrow> bool \<times> IPythonSessionManager" where
  "delete_session m sid =
     (if sessions m sid \<noteq> None then (True, m\<lparr>sessions := (sessions m)(sid := None)\<rparr>)
      else (False, m))"

text \<open>
  The global \<^verbatim>\<open>_session_manager\<close> is \<open>None\<close> until the first call of \<open>get_session_manager\<close>.
  A tool takes the global and returns it; the manager object is changed in place, so the
  global after a call holds the manager as the call left it.
\<close>

type_synonym world = "IPythonSessionManager option"

definition get_session_manager :: "world \<Rightarrow> IPythonSessionManager" where
  "get_session_manager g = (case g of None \<Rightarrow> \<lparr>sessions = Map.empty\<rparr> | Some m \<Rightarrow> m)"

definition session_map :: "world \<Rightarrow> (string \<rightharpoonup> IPythonSession)" where
  \<comment> \<open>the sessions that exist in a state of the global\<close>
  "session_map g = (case g of None \<Rightarrow> Map.empty | Some m \<Rightarrow> sessions m)"

section \<open>The tools and their handlers\<close>

text \<open>
  A tool returns a dictionary. \<open>Failure msg\<close> is \<^verbatim>\<open>{"success": False, "error": msg}\<close>; the
  other constructors are the dictionaries of the tools modelled below, \<open>Executed\<close> holding
  the eight keys of \<open>execute_code\<close>.
\<close>

datatype load_extra = EncodingDetected string | SheetUsed sheet | NoLoadExtra

datatype response =
    Failure string
  | SessionCreated string string "string list"
  | SessionDeleted string
  | Executed ExecutionResult
  | Loaded string "nat list" "string list" "(string \<times> string) list" rat load_extra rat
  | Cleared "string list" rat nat

fun dict_success :: "response \<Rightarrow> bool" where
  "dict_success (Failure msg) = False"
| "dict_success (Executed r) = success r"
| "dict_success (SessionCreated sid msg imported) = True"
| "dict_success (SessionDeleted msg) = True"
| "dict_success (Loaded name shape cols dtypes mem extra t) = True"
| "dict_success (Cleared names freed remaining) = True"

fun dict_error :: "response \<Rightarrow> string option" where
  "dict_error (Failure msg) = Some msg"
| "dict_error (Executed r) = error r"
| "dict_error (SessionCreated sid msg imported) = None"
| "dict_error (SessionDeleted msg) = None"
| "dict_error (Loaded name shape cols dtypes mem extra t) = None"
| "dict_error (Cleared names freed remaining) = None"

datatype tool =
    T_create_ipython_session | T_list_ipython_sessions | T_get_session_status
  | T_delete_ipython_session | T_execute_code | T_get_execution_history
  | T_load_csv_file | T_load_excel_file | T_load_json_file
  | T_list_dataframes | T_get_dataframe_info | T_preview_dataframe
  | T_get_dataframe_summary | T_check_memory_usage | T_get_variable_info
  | T_sample_column_data | T_clear_variables

fun failure_prefix :: "tool \<Rightarrow> string" where
  "failure_prefix T_create_ipython_session = ''Failed to create session: ''"
| "failure_prefix T_list_ipython_sessions = ''Failed to list sessions: ''"
| "failure_prefix T_get_session_status = ''Failed to get session status: ''"
| "failure_prefix T_delete_ipython_session = ''Failed to delete session: ''"
| "failure_prefix T_execute_code = ''Failed to execute code: ''"
| "failure_prefix T_get_execution_history = ''Failed to get execution history: ''"
| "failure_prefix T_load_csv_file = ''Failed to load CSV file: ''"
| "failure_prefix T_load_excel_file = ''Failed to load Excel file: ''"
| "failure_prefix T_load_json_file = ''Failed to load JSON file: ''"
| "failure_prefix T_list_dataframes = ''Failed to list dataframes: ''"
| "failure_prefix T_get_dataframe_info = ''Failed to get dataframe info: ''"
| "failure_prefix T_preview_dataframe = ''Failed to preview dataframe: ''"
| "failure_prefix T_get_dataframe_summary = ''Failed to get dataframe summary: ''"
| "failure_prefix T_check_memory_usage = ''Failed to check memory usage: ''"
| "failure_prefix T_get_variable_info = ''Failed to get variable info: ''"
| "failure_prefix T_sample_column_data = ''Failed to sample column data: ''"
| "failure_prefix T_clear_variables = ''Failed to clear variables: ''"

definition catches_ValueError :: "tool \<Rightarrow> bool" where
  \<comment> \<open>the tools with a clause \<^verbatim>\<open>except ValueError\<close>\<close>
  "catches_ValueError t =
     (t \<notin> {T_create_ipython_session, T_list_ipython_sessions, T_delete_ipython_session})"

definition catches_FileNotFoundError :: "tool \<Rightarrow> bool" where
  \<comment> \<open>the tools with a clause \<^verbatim>\<open>except FileNotFoundError\<close>\<close>
  "catches_FileNotFoundError t = (t \<in> {T_load_csv_file, T_load_excel_file, T_load_json_file})"

definition tool_except :: "tool \<Rightarrow> py_exn \<Rightarrow> response" where
  \<comment> \<open>the \<^verbatim>\<open>except\<close> clauses of a tool, in their order\<close>
  "tool_except t e =
     (if catches_FileNotFoundError t \<and> isinstance_FileNotFoundError e then Failure (exn_str e)
      else if catches_ValueError t \<and> isinstance_ValueError e then Failure (exn_str e)
      else Failure (failure_prefix t @ exn_str e))"

definition tool_try :: "tool \<Rightarrow> (py_exn + response) \<times> world \<Rightarrow> response \<times> world" where
  \<comment> \<open>the \<^verbatim>\<open>try\<close> that is the whole body of a tool: what the body returns, or the handler\<close>
  "tool_try t outcome =
     (case outcome of
        (Inr r, g) \<Rightarrow> (r, g)
      | (Inl e, g) \<Rightarrow> (tool_except t e, g))"

definition create_ipython_session_body ::
  "env \<Rightarrow> create_probe \<Rightarrow> world \<Rightarrow> string option \<Rightarrow> bool \<Rightarrow> (py_exn + response) \<times> world" where
  "create_ipython_session_body env cp g requested_id auto_import =
     (if \<not> IPYTHON_AVAILABLE env then
        (Inr (Failure ''IPython is not available. Please install with: pip install ipython''), g)
      else
        (let manager = get_session_manager g
         in case create_session env cp manager requested_id auto_import of
              (Inl e, m') \<Rightarrow> (Inl e, Some m')
            | (Inr created_session_id, m') \<Rightarrow>
                (let auto_imported =
                       (if auto_import
                        then [''pandas'', ''numpy'', ''json'', ''os'', ''sys'', ''pathlib'']
                        else [])
                 in (Inr (SessionCreated created_session_id
                            (''IPython session '' @ created_session_id @ '' created successfully'')
                            auto_imported),
                     Some m'))))"

definition create_ipython_session ::
  "env \<Rightarrow> create_probe \<Rightarrow> world \<Rightarrow> string option \<Rightarrow> bool \<Rightarrow> response \<times> world" where
  "create_ipython_session env cp g requested_id auto_import =
     tool_try T_create_ipython_session
       (create_ipython_session_body env cp g requested_id auto_import)"

definition delete_ipython_session_body :: "world \<Rightarrow> string \<Rightarrow> (py_exn + response) \<times> world" where
  "delete_ipython_session_body g sid =
     (let manager = get_session_manager g
      in case delete_session manager sid of
           (True, m') \<Rightarrow>
             (Inr (SessionDeleted (''Session '' @ sid @ '' deleted successfully'')), Some m')
         | (False, m') \<Rightarrow>
             (Inr (Failure (''Session '' @ sid @ '' not found'')), Some m'))"

definition delete_ipython_session :: "world \<Rightarrow> string \<Rightarrow> response \<times> world" where
  "delete_ipython_session g sid =
     tool_try T_delete_ipython_session (delete_ipython_session_body g sid)"



section \<open>Loading files\<close>

text \<open>The two clock readings around the call of a reader.\<close>

record load_probe =
  lp_start :: rat
  lp_end :: rat

fun detect_encoding_from :: "env \<Rightarrow> string \<Rightarrow> string list \<Rightarrow> py_exn + string" where
  "detect_encoding_from env file_path [] = Inr ''utf-8''"
| "detect_encoding_from env file_path (encoding # rest) =
     (case try_read env file_path encoding of
        None \<Rightarrow> Inr encoding
      | Some e \<Rightarrow>
          if isinstance_UnicodeError e then detect_encoding_from env file_path rest
          else Inl e)"

definition detect_encoding :: "env \<Rightarrow> string \<Rightarrow> py_exn + string" where
  "detect_encoding env file_path =
     detect_encoding_from env file_path [''utf-8'', ''gb18030'', ''gbk'', ''gb2312'', ''latin-1'']"

definition load_csv ::
  "env \<Rightarrow> load_probe \<Rightarrow> string \<Rightarrow> string \<Rightarrow> py_exn + (pyobj \<times> string \<times> rat)" where
  "load_csv env lp file_path encoding =
     (if \<not> PANDAS_AVAILABLE env then
        Inl (raise_exn ImportError ''pandas is required for CSV loading'')
      else if \<not> path_exists env file_path then
        Inl (raise_exn FileNotFoundError (''File not found: '' @ file_path))
      else
        (case (if encoding = ''auto'' then detect_encoding env file_path else Inr encoding) of
           Inl e \<Rightarrow> Inl e
         | Inr encoding' \<Rightarrow>
             (case read_csv env file_path encoding' of
                Inl e \<Rightarrow> Inl e
              | Inr df \<Rightarrow> Inr (df, encoding', lp_end lp - lp_start lp))))"

fun try_engines :: "env \<Rightarrow> string \<Rightarrow> sheet \<Rightarrow> engine list \<Rightarrow> py_exn \<Rightarrow> py_exn + pyobj" where
  \<comment> \<open>the \<^verbatim>\<open>for alt_engine in [...]\<close> loop; its \<^verbatim>\<open>else\<close> raises the first exception again\<close>
  "try_engines env file_path sheet_name [] e = Inl e"
| "try_engines env file_path sheet_name (alt_engine # rest) e =
     (case read_excel env file_path sheet_name (Some alt_engine) of
        Inr df \<Rightarrow> Inr df
      | Inl e' \<Rightarrow> try_engines env file_path sheet_name rest e)"

definition load_excel ::
  "env \<Rightarrow> load_probe \<Rightarrow> string \<Rightarrow> sheet \<Rightarrow> py_exn + (pyobj \<times> rat)" where
  "load_excel env lp file_path sheet_name =
     (if \<not> PANDAS_AVAILABLE env then
        Inl (raise_exn ImportError ''pandas is required for Excel loading'')
      else if \<not> EXCEL_AVAILABLE env then
        Inl (raise_exn ImportError
          ''Excel support libraries are required. Install with: pip install openpyxl xlrd'')
      else if \<not> path_exists env file_path then
        Inl (raise_exn FileNotFoundError (''File not found: '' @ file_path))
      else
        (let file_extension = path_suffix_lower env file_path
         in case (if file_extension = ''.xlsx'' then
                    (if \<not> EXCEL_XLSX_AVAILABLE env then
                       Inl (raise_exn ImportError
                         ''openpyxl is required for .xlsx files. Install with: pip install openpyxl'')
                     else Inr (Some openpyxl))
                  else if file_extension = ''.xls'' then
                    (if \<not> EXCEL_XLS_AVAILABLE env then
                       Inl (raise_exn ImportError
                         ''xlrd is required for .xls files. Install with: pip install xlrd'')
                     else Inr (Some xlrd))
                  else Inr None) of
              Inl e \<Rightarrow> Inl e
            | Inr engine \<Rightarrow>
                (case (case read_excel env file_path sheet_name engine of
                         Inr df \<Rightarrow> Inr df
                       | Inl e \<Rightarrow>
                           if engine = None \<and> file_extension \<notin> set [''.xlsx'', ''.xls'']
                           then try_engines env file_path sheet_name [openpyxl, xlrd] e
                           else Inl e) of
                   Inl e \<Rightarrow> Inl e
                 | Inr df \<Rightarrow> Inr (df, lp_end lp - lp_start lp))))"

definition load_json :: "env \<Rightarrow> load_probe \<Rightarrow> string \<Rightarrow> py_exn + (pyobj \<times> rat)" where
  "load_json env lp file_path =
     (if \<not> PANDAS_AVAILABLE env then
        Inl (raise_exn ImportError ''pandas is required for JSON loading'')
      else if \<not> path_exists env file_path then
        Inl (raise_exn FileNotFoundError (''File not found: '' @ file_path))
      else
        (case read_json env file_path of
           Inl e \<Rightarrow> Inl e
         | Inr df \<Rightarrow> Inr (df, lp_end lp - lp_start lp)))"

subsection \<open>The generated variable name\<close>

definition numbered_name :: "string \<Rightarrow> nat \<Rightarrow> string" where
  \<comment> \<open>\<^verbatim>\<open>f"df_{base_name}_{counter}"\<close>\<close>
  "numbered_name base_name counter = ''df_'' @ base_name @ ''_'' @ str_nat counter"

lemma str_nat_nonempty: "str_nat n \<noteq> []"
  by (subst str_nat.simps) simp

lemma digit_char_inj: "a < 10 \<Longrightarrow> b < 10 \<Longrightarrow> digit_char a = digit_char b \<Longrightarrow> a = b"
proof -
  assume a: "a < 10" and b: "b < 10" and eq: "digit_char a = digit_char b"
  from eq have "of_char (digit_char a) = (of_char (digit_char b) :: nat)" by simp
  with a b show "a = b" by (simp add: digit_char_def)
qed

lemma str_nat_inj: "str_nat n = str_nat m \<Longrightarrow> n = m"
proof (induction n arbitrary: m rule: str_nat.induct)
  case (1 n)
  show ?case
  proof (cases "n < 10")
    case small_n: True
    show ?thesis
    proof (cases "m < 10")
      case True
      with small_n "1.prems" show ?thesis
        by (simp add: str_nat.simps [of n] str_nat.simps [of m] digit_char_inj)
    next
      case False
      with small_n "1.prems" str_nat_nonempty [of "m div 10"] show ?thesis
        by (simp add: str_nat.simps [of n] str_nat.simps [of m])
    qed
  next
    case big_n: False
    show ?thesis
    proof (cases "m < 10")
      case True
      with big_n "1.prems" str_nat_nonempty [of "n div 10"] show ?thesis
        by (simp add: str_nat.simps [of n] str_nat.simps [of m])
    next
      case False
      with big_n "1.prems" have
        init_eq: "str_nat (n div 10) = str_nat (m div 10)" and
        last_eq: "digit_char (n mod 10) = digit_char (m mod 10)"
        by (simp_all add: str_nat.simps [of n] str_nat.simps [of m])
      from big_n init_eq have "n div 10 = m div 10" by (rule "1.IH")
      moreover from last_eq have "n mod 10 = m mod 10" by (simp add: digit_char_inj)
      ultimately show ?thesis by (metis div_mult_mod_eq)
    qed
  qed
qed

lemma numbered_name_inj: "inj (numbered_name base_name)"
  by (rule injI) (simp add: numbered_name_def str_nat_inj)

lemma finite_numbered: "finite {k. c \<le> k \<and> numbered_name base_name k \<in> set variables}"
proof -
  have "finite (numbered_name base_name -` set variables)"
    by (rule finite_vimageI) (simp_all add: numbered_name_inj)
  moreover have "{k. c \<le> k \<and> numbered_name base_name k \<in> set variables}
      \<subseteq> numbered_name base_name -` set variables" by auto
  ultimately show ?thesis by (rule rev_finite_subset)
qed

lemma card_numbered_step:
  "card {k. c \<le> k \<and> numbered_name base_name k \<in> set variables} =
     card {k. Suc c \<le> k \<and> numbered_name base_name k \<in> set variables} +
     (if numbered_name base_name c \<in> set variables then 1 else 0)"
proof (cases "numbered_name base_name c \<in> set variables")
  case True
  then have "{k. c \<le> k \<and> numbered_name base_name k \<in> set variables} =
      insert c {k. Suc c \<le> k \<and> numbered_name base_name k \<in> set variables}"
    by (auto simp: Suc_le_eq le_less)
  then show ?thesis using True finite_numbered [of "Suc c" base_name variables] by simp
next
  case False
  then have "{k. c \<le> k \<and> numbered_name base_name k \<in> set variables} =
      {k. Suc c \<le> k \<and> numbered_name base_name k \<in> set variables}"
    by (auto simp: Suc_le_eq le_less)
  then show ?thesis using False by simp
qed

text \<open>
  The loop \<^verbatim>\<open>while variable_name in variables\<close>. It ends: the numbered names are pairwise
  different and the dictionary is finite.
\<close>

function auto_name_loop :: "string list \<Rightarrow> string \<Rightarrow> string \<Rightarrow> nat \<Rightarrow> string" where
  "auto_name_loop variables base_name variable_name counter =
     (if variable_name \<in> set variables
      then auto_name_loop variables base_name (numbered_name base_name counter) (counter + 1)
      else variable_name)"
  by pat_completeness auto
termination
proof (relation "measure (\<lambda>(variables, base_name, variable_name, counter).
         card {k. counter \<le> k \<and> numbered_name base_name k \<in> set variables} +
         (if variable_name \<in> set variables then 1 else 0))", goal_cases)
  case 1
  show ?case by simp
next
  case (2 variables base_name variable_name counter)
  then show ?case
    using card_numbered_step [of counter base_name variables] by simp
qed

declare auto_name_loop.simps [simp del]

definition generate_variable_name :: "env \<Rightarrow> IPythonSession \<Rightarrow> string \<Rightarrow> string" where
  \<comment> \<open>the lines under \<^verbatim>\<open>if variable_name is None\<close>, the same in the three loading tools\<close>
  "generate_variable_name env session file_path =
     (let base_name = path_stem env file_path;
          variable_name = ''df_'' @ base_name;
          variables = get_variables session
      in auto_name_loop (map fst variables) base_name variable_name 1)"

definition bind_variable :: "IPythonSession \<Rightarrow> string \<Rightarrow> pyobj \<Rightarrow> IPythonSession" where
  \<comment> \<open>\<^verbatim>\<open>session.shell.user_ns[variable_name] = df\<close>\<close>
  "bind_variable session variable_name df =
     session\<lparr>shell := (shell session)\<lparr>user_ns := AList.update variable_name df
                                                   (user_ns (shell session))\<rparr>\<rparr>"

definition megabytes :: "nat \<Rightarrow> rat" where
  "megabytes bytes = of_nat bytes / 1024 / 1024"

definition load_csv_file_body ::
  "env \<Rightarrow> load_probe \<Rightarrow> world \<Rightarrow> string \<Rightarrow> string \<Rightarrow> string option \<Rightarrow> string
     \<Rightarrow> (py_exn + response) \<times> world" where
  "load_csv_file_body env lp g file_path sid variable_name encoding =
     (if \<not> PANDAS_AVAILABLE env then
        (Inr (Failure ''pandas is not available. Please install with: pip install pandas numpy''), g)
      else
        (let manager = get_session_manager g
         in case get_session manager sid of
              Inl e \<Rightarrow> (Inl e, Some manager)
            | Inr session \<Rightarrow>
                (case load_csv env lp file_path encoding of
                   Inl e \<Rightarrow> (Inl e, Some manager)
                 | Inr (df, detected_encoding, load_time) \<Rightarrow>
                     (let variable_name' =
                            (case variable_name of
                               None \<Rightarrow> generate_variable_name env session file_path
                             | Some given \<Rightarrow> given);
                          manager' = manager\<lparr>sessions := (sessions manager)
                                       (sid \<mapsto> bind_variable session variable_name' df)\<rparr>
                      in case describe_frame df of
                           Inl e \<Rightarrow> (Inl e, Some manager')
                         | Inr info \<Rightarrow>
                             (Inr (Loaded variable_name' (fi_shape info) (fi_columns info)
                                     (fi_dtypes info)
                                     (py_round (megabytes (fi_memory_bytes info)) 2)
                                     (EncodingDetected detected_encoding)
                                     (py_round load_time 3)),
                              Some manager')))))"

definition load_csv_file ::
  "env \<Rightarrow> load_probe \<Rightarrow> world \<Rightarrow> string \<Rightarrow> string \<Rightarrow> string option \<Rightarrow> string
     \<Rightarrow> response \<times> world" where
  "load_csv_file env lp g file_path sid variable_name encoding =
     tool_try T_load_csv_file (load_csv_file_body env lp g file_path sid variable_name encoding)"

definition load_excel_file_body ::
  "env \<Rightarrow> load_probe \<Rightarrow> world \<Rightarrow> string \<Rightarrow> string \<Rightarrow> string option \<Rightarrow> sheet
     \<Rightarrow> (py_exn + response) \<times> world" where
  "load_excel_file_body env lp g file_path sid variable_name sheet_name =
     (if \<not> PANDAS_AVAILABLE env then
        (Inr (Failure ''pandas is not available. Please install with: pip install pandas numpy''), g)
      else if \<not> EXCEL_AVAILABLE env then
        (Inr (Failure
           ''Excel support libraries are not available. Please install with: pip install openpyxl xlrd''),
         g)
      else
        (let manager = get_session_manager g
         in case get_session manager sid of
              Inl e \<Rightarrow> (Inl e, Some manager)
            | Inr session \<Rightarrow>
                (case load_excel env lp file_path sheet_name of
                   Inl e \<Rightarrow> (Inl e, Some manager)
                 | Inr (df, load_time) \<Rightarrow>
                     (let variable_name' =
                            (case variable_name of
                               None \<Rightarrow> generate_variable_name env session file_path
                             | Some given \<Rightarrow> given);
                          manager' = manager\<lparr>sessions := (sessions manager)
                                       (sid \<mapsto> bind_variable session variable_name' df)\<rparr>
                      in case describe_frame df of
                           Inl e \<Rightarrow> (Inl e, Some manager')
                         | Inr info \<Rightarrow>
                             (Inr (Loaded variable_name' (fi_shape info) (fi_columns info)
                                     (fi_dtypes info)
                                     (py_round (megabytes (fi_memory_bytes info)) 2)
                                     (SheetUsed sheet_name)
                                     (py_round load_time 3)),
                              Some manager')))))"

definition load_excel_file ::
  "env \<Rightarrow> load_probe \<Rightarrow> world \<Rightarrow> string \<Rightarrow> string \<Rightarrow> string option \<Rightarrow> sheet
     \<Rightarrow> response \<times> world" where
  "load_excel_file env lp g file_path sid variable_name sheet_name =
     tool_try T_load_excel_file
       (load_excel_file_body env lp g file_path sid variable_name sheet_name)"

definition load_json_file_body ::
  "env \<Rightarrow> load_probe \<Rightarrow> world \<Rightarrow> string \<Rightarrow> string \<Rightarrow> string option
     \<Rightarrow> (py_exn + response) \<times> world" where
  "load_json_file_body env lp g file_path sid variable_name =
     (if \<not> PANDAS_AVAILABLE env then
        (Inr (Failure ''pandas is not available. Please install with: pip install pandas numpy''), g)
      else
        (let manager = get_session_manager g
         in case get_session manager sid of
              Inl e \<Rightarrow> (Inl e, Some manager)
            | Inr session \<Rightarrow>
                (case load_json env lp file_path of
                   Inl e \<Rightarrow> (Inl e, Some manager)
                 | Inr (df, load_time) \<Rightarrow>
                     (let variable_name' =
                            (case variable_name of
                               None \<Rightarrow> generate_variable_name env session file_path
                             | Some given \<Rightarrow> given);
                          manager' = manager\<lparr>sessions := (sessions manager)
                                       (sid \<mapsto> bind_variable session variable_name' df)\<rparr>
                      in case describe_frame df of
                           Inl e \<Rightarrow> (Inl e, Some manager')
                         | Inr info \<Rightarrow>
                             (Inr (Loaded variable_name' (fi_shape info) (fi_columns info)
                                     (fi_dtypes info)
                                     (py_round (megabytes (fi_memory_bytes info)) 2)
                                     NoLoadExtra
                                     (py_round load_time 3)),
                              Some manager')))))"

definition load_json_file ::
  "env \<Rightarrow> load_probe \<Rightarrow> world \<Rightarrow> string \<Rightarrow> string \<Rightarrow> string option \<Rightarrow> response \<times> world" where
  "load_json_file env lp g file_path sid variable_name =
     tool_try T_load_json_file (load_json_file_body env lp g file_path sid variable_name)"

section \<open>Clearing variables\<close>








section \<open>The paths through execute\<close>
















definition chosen_id :: "create_probe \<Rightarrow> string option \<Rightarrow> string" where
  \<comment> \<open>the id that \<open>create_session\<close> works with\<close>
  "chosen_id cp requested_id =
     (case requested_id of
        None \<Rightarrow> ''session_'' @ take 8 (cp_uuid4_hex cp)
      | Some given \<Rightarrow> given)"

section \<open>A sample environment\<close>

text \<open>
  Concrete objects, a concrete interpreter and a concrete file system, on which the
  theorems below are instantiated.
\<close>

definition no_attribute :: "string \<Rightarrow> py_exn" where
  "no_attribute msg = raise_exn OtherException msg"

definition sample_int :: pyobj where
  "sample_int =
     \<lparr>type_name = ''int'', truthy = True, str_of = Inr ''42'',
      display_format = Inr (Some ''42''), plain_format = Inr (Some ''42''),
      to_string = None, has_array = False, getsizeof = Inr 28, has_module_attr = False,
      introspect = Inr NoExtra,
      describe_frame = Inl (no_attribute ''int object has no attribute dtypes'')\<rparr>"

definition sample_frame :: pyobj where
  "sample_frame =
     \<lparr>type_name = ''DataFrame'', truthy = True, str_of = Inr ''   a  b'',
      display_format = Inr (Some ''   a  b''), plain_format = Inr (Some ''   a  b''),
      to_string = Some (Inr ''   a  b''), has_array = True, getsizeof = Inr 160,
      has_module_attr = False,
      introspect = Inr (FrameExtra [0, 2] (Some [''a'', ''b'']) (Some 132)),
      describe_frame = Inr \<lparr>fi_shape = [0, 2], fi_columns = [''a'', ''b''],
                            fi_dtypes = [(''a'', ''object''), (''b'', ''object'')],
                            fi_memory_bytes = 132\<rparr>\<rparr>"

definition sample_error :: pyobj where
  "sample_error =
     \<lparr>type_name = ''ZeroDivisionError'', truthy = True, str_of = Inr ''division by zero'',
      display_format = Inr (Some ''ZeroDivisionError()''),
      plain_format = Inr (Some ''ZeroDivisionError()''),
      to_string = None, has_array = False, getsizeof = Inr 64, has_module_attr = False,
      introspect = Inr NoExtra,
      describe_frame = Inl (no_attribute ''no attribute dtypes'')\<rparr>"

text \<open>An object whose \<^verbatim>\<open>__repr__\<close> and \<^verbatim>\<open>__str__\<close> raise; the display formatter yields nothing for it.\<close>

definition unprintable :: pyobj where
  "unprintable =
     \<lparr>type_name = ''Bad'', truthy = True,
      str_of = Inl (raise_exn ValueError ''no text''),
      display_format = Inr None, plain_format = Inr None,
      to_string = None, has_array = False, getsizeof = Inr 48, has_module_attr = True,
      introspect = Inr NoExtra,
      describe_frame = Inl (no_attribute ''no attribute dtypes'')\<rparr>"

definition quiet_run :: cell_run where
  "quiet_run = \<lparr>run_stdout = [], run_stderr = [], run_result = None, run_error_in_exec = None\<rparr>"

definition sample_run_cell ::
  "string \<Rightarrow> InteractiveShell \<Rightarrow> (py_exn + cell_run) \<times> InteractiveShell" where
  "sample_run_cell code sh =
     (if code = ''print(1)'' then (Inr (quiet_run\<lparr>run_stdout := ''1'' @ [CHR 0x0A]\<rparr>), sh)
      else if code = ''6 * 7'' then (Inr (quiet_run\<lparr>run_result := Some sample_int\<rparr>), sh)
      else if code = ''1 / 0'' then (Inr (quiet_run\<lparr>run_error_in_exec := Some sample_error\<rparr>), sh)
      else if code = ''Bad()'' then (Inr (quiet_run\<lparr>run_result := Some unprintable\<rparr>), sh)
      else (Inr quiet_run, sh))"

definition sample_read_excel :: "string \<Rightarrow> sheet \<Rightarrow> engine option \<Rightarrow> py_exn + pyobj" where
  "sample_read_excel file_path sheet_name eng =
     (case eng of
        None \<Rightarrow> Inl (raise_exn ValueError
                  ''Excel file format cannot be determined, you must specify an engine manually.'')
      | Some openpyxl \<Rightarrow> Inr sample_frame
      | Some xlrd \<Rightarrow> Inl (raise_exn OtherException ''Unsupported format, or corrupt file''))"

definition sample_env :: env where
  "sample_env =
     \<lparr>IPYTHON_AVAILABLE = True, PANDAS_AVAILABLE = True,
      EXCEL_XLSX_AVAILABLE = True, EXCEL_XLS_AVAILABLE = True, PSUTIL_AVAILABLE = True,
      run_cell = sample_run_cell,
      format_exc = (\<lambda>e. ''Traceback (most recent call last)''),
      path_exists = (\<lambda>file_path. file_path \<in> set [''data.csv'', ''data.dat'', ''data.json'', ''broken.csv'']),
      path_stem = takeWhile (\<lambda>c. c \<noteq> CHR ''.''),
      path_suffix_lower = dropWhile (\<lambda>c. c \<noteq> CHR ''.''),
      try_read = (\<lambda>file_path encoding. None),
      read_csv = (\<lambda>file_path encoding.
         if file_path = ''broken.csv''
         then Inl (raise_exn OtherException ''Error tokenizing data'')
         else Inr sample_frame),
      read_excel = sample_read_excel,
      read_json = (\<lambda>file_path. Inr sample_frame)\<rparr>"

definition sample_shell :: InteractiveShell where
  "sample_shell = \<lparr>colors = ''NoColor'', user_ns = [(''_'', sample_int), (''df_data'', sample_frame)]\<rparr>"

definition sample_session :: IPythonSession where
  "sample_session =
     \<lparr>session_id = ''s1'', created_at = ''2024-01-01T00:00:00'',
      last_used = ''2024-01-01T00:00:00'', execution_counter = 0, history = [],
      shell = sample_shell\<rparr>"

definition sample_world :: world where
  "sample_world = Some \<lparr>sessions = [''s1'' \<mapsto> sample_session]\<rparr>"


definition sample_load_probe :: load_probe where
  "sample_load_probe = \<lparr>lp_start = 5, lp_end = 6\<rparr>"


definition sample_create_probe :: create_probe where
  "sample_create_probe =
     \<lparr>cp_uuid4_hex = ''0123456789abcdef0123456789abcdef'',
      cp_created_at = ''2024-01-01T00:00:07'', cp_last_used = ''2024-01-01T00:00:07'',
      cp_new_shell = Inr \<lparr>colors = ''Neutral'', user_ns = []\<rparr>\<rparr>"

section \<open>Facts shared by the properties\<close>



lemma sessions_get_session_manager: "sessions (get_session_manager g) = session_map g"
  by (cases g) (simp_all add: get_session_manager_def session_map_def)

lemma session_map_Some: "session_map (Some m) = sessions m"
  by (simp add: session_map_def)

lemma get_session_found:
  "session_map g sid = Some s \<Longrightarrow> get_session (get_session_manager g) sid = Inr s"
  by (simp add: get_session_def sessions_get_session_manager)

lemma world_of_existing:
  "session_map g sid = Some s \<Longrightarrow> Some (get_session_manager g) = g"
  by (cases g) (simp_all add: session_map_def get_session_manager_def)

lemma load_csv_missing:
  "PANDAS_AVAILABLE env \<Longrightarrow> \<not> path_exists env file_path \<Longrightarrow>
   load_csv env lp file_path encoding =
     Inl (raise_exn FileNotFoundError (''File not found: '' @ file_path))"
  by (simp add: load_csv_def)

lemma load_json_missing:
  "PANDAS_AVAILABLE env \<Longrightarrow> \<not> path_exists env file_path \<Longrightarrow>
   load_json env lp file_path =
     Inl (raise_exn FileNotFoundError (''File not found: '' @ file_path))"
  by (simp add: load_json_def)

lemma load_excel_missing:
  "PANDAS_AVAILABLE env \<Longrightarrow> EXCEL_AVAILABLE env \<Longrightarrow> \<not> path_exists env file_path \<Longrightarrow>
   load_excel env lp file_path sheet_name =
     Inl (raise_exn FileNotFoundError (''File not found: '' @ file_path))"
  by (simp add: load_excel_def)

section \<open>Properties of the program\<close>

subsection \<open>C7: stripping of ANSI sequences\<close>

text \<open>
  Claim C7, as amended. The claim says that for every string the output of
  \<open>remove_ansi_codes\<close> holds no sequence matched by its pattern and that stripping twice
  equals stripping once. The substitution is a single pass, and an escape character that
  starts no match stays in the text, where the removal of the match behind it can make it
  the start of a new one. What holds: for every string in which each escape character
  starts a match of the pattern, the output holds no escape character, hence no sequence
  matched by the pattern, and stripping it again changes nothing.
\<close>

theorem remove_ansi_codes_idempotent_if_matched:
  "every_esc_matches s \<Longrightarrow>
     ESC \<notin> set (remove_ansi_codes s) \<and>
     \<not> has_ansi (remove_ansi_codes s) \<and>
     remove_ansi_codes (remove_ansi_codes s) = remove_ansi_codes s"
  using remove_ansi_codes_no_esc [of s] no_esc_no_ansi remove_ansi_codes_fixed
  by blast

theorem remove_ansi_codes_idempotent_if_matched_witness:
  "every_esc_matches (ESC # ''[0;31mred'' @ ESC # ''[0m'') \<and>
   remove_ansi_codes (ESC # ''[0;31mred'' @ ESC # ''[0m'') = ''red'' \<and>
   \<not> has_ansi (remove_ansi_codes (ESC # ''[0;31mred'' @ ESC # ''[0m'')) \<and>
   remove_ansi_codes (remove_ansi_codes (ESC # ''[0;31mred'' @ ESC # ''[0m'')) =
     remove_ansi_codes (ESC # ''[0;31mred'' @ ESC # ''[0m'')"
proof -
  have h: "every_esc_matches (ESC # ''[0;31mred'' @ ESC # ''[0m'')"
    by code_simp
  have v: "remove_ansi_codes (ESC # ''[0;31mred'' @ ESC # ''[0m'') = ''red''"
    by code_simp
  from remove_ansi_codes_idempotent_if_matched [OF h] h v show ?thesis by blast
qed

text \<open>
  Claim C7, as stated, fails. In the four characters \<open>ESC ESC A A\<close> the first escape
  character starts no match (an escape character is in neither alternative), the second
  one starts the match \<open>ESC A\<close>, which is removed, and the output \<open>ESC A\<close> is itself a
  sequence matched by the pattern: a second pass removes it.
\<close>

theorem remove_ansi_codes_not_idempotent:
  "remove_ansi_codes [ESC, ESC, CHR ''A'', CHR ''A''] = [ESC, CHR ''A''] \<and>
   has_ansi (remove_ansi_codes [ESC, ESC, CHR ''A'', CHR ''A'']) \<and>
   remove_ansi_codes (remove_ansi_codes [ESC, ESC, CHR ''A'', CHR ''A'']) \<noteq>
     remove_ansi_codes [ESC, ESC, CHR ''A'', CHR ''A'']"
  by code_simp

subsection \<open>C1: what execute_code returns\<close>





subsection \<open>C6: the execution history\<close>








subsection \<open>C9: success and error of an execution result\<close>

lemma exception_result_invariant:
  "success (exception_result env p s e) = (error (exception_result env p s e) = None)"
  by (simp add: exception_result_def Let_def)





subsection \<open>C3: creating a session\<close>

lemma create_session_existing:
  "chosen_id cp requested_id \<in> dom (sessions m) \<Longrightarrow>
   create_session env cp m requested_id auto_import =
     (Inl (raise_exn ValueError (''Session '' @ chosen_id cp requested_id @ '' already exists'')), m)"
  unfolding create_session_def chosen_id_def Let_def by auto

lemma create_session_fresh:
  "chosen_id cp requested_id \<notin> dom (sessions m) \<Longrightarrow>
   create_session env cp m requested_id auto_import =
     (case IPythonSession_init env cp (chosen_id cp requested_id) auto_import of
        Inl e \<Rightarrow> (Inl e, m)
      | Inr session \<Rightarrow>
          (Inr (chosen_id cp requested_id),
           m\<lparr>sessions := (sessions m)(chosen_id cp requested_id \<mapsto> session)\<rparr>))"
  unfolding create_session_def chosen_id_def Let_def by (auto simp: domIff)

lemma create_existing_fails:
  "chosen_id cp requested_id \<in> dom (session_map g) \<Longrightarrow>
   dict_success (fst (create_ipython_session env cp g requested_id auto_import)) = False \<and>
   session_map (snd (create_ipython_session env cp g requested_id auto_import)) = session_map g"
  by (simp add: create_ipython_session_def create_ipython_session_body_def tool_try_def
        create_session_existing sessions_get_session_manager tool_except_def session_map_Some
        Let_def)

lemma create_success_fresh:
  assumes "fst (create_ipython_session env cp g requested_id auto_import) =
      SessionCreated sid msg imported"
  shows "sid \<notin> dom (session_map g) \<and>
     dom (session_map (snd (create_ipython_session env cp g requested_id auto_import))) =
       insert sid (dom (session_map g)) \<and>
     (\<forall>other. other \<noteq> sid \<longrightarrow>
        session_map (snd (create_ipython_session env cp g requested_id auto_import)) other =
          session_map g other)"
proof (cases "IPYTHON_AVAILABLE env")
  case False
  with assms show ?thesis
    by (simp add: create_ipython_session_def create_ipython_session_body_def tool_try_def)
next
  case avail: True
  show ?thesis
  proof (cases "chosen_id cp requested_id \<in> dom (session_map g)")
    case True
    from create_existing_fails [OF this, of env auto_import] assms show ?thesis by simp
  next
    case False
    then have fresh: "chosen_id cp requested_id \<notin> dom (sessions (get_session_manager g))"
      by (simp add: sessions_get_session_manager)
    show ?thesis
    proof (cases "IPythonSession_init env cp (chosen_id cp requested_id) auto_import")
      case (Inl e)
      with assms avail fresh show ?thesis
        by (simp add: create_ipython_session_def create_ipython_session_body_def tool_try_def
              create_session_fresh tool_except_def Let_def split: if_splits)
    next
      case (Inr session)
      with assms avail fresh have "sid = chosen_id cp requested_id"
        by (simp add: create_ipython_session_def create_ipython_session_body_def tool_try_def
              create_session_fresh Let_def)
      with avail fresh Inr False show ?thesis
        by (simp add: create_ipython_session_def create_ipython_session_body_def tool_try_def
              create_session_fresh Let_def session_map_Some sessions_get_session_manager)
    qed
  qed
qed

text \<open>
  Claim C3. A call of \<open>create_ipython_session\<close> that succeeds returns an id that was not
  in the session map before the call; the map after the call has this one id more and
  maps every other id as before. A call with an explicit id that is in the session map
  returns \<open>success\<close> false and leaves the map as it was.
\<close>

theorem create_ipython_session_unique:
  "(fst (create_ipython_session env cp g requested_id auto_import) =
      SessionCreated sid msg imported \<longrightarrow>
      sid \<notin> dom (session_map g) \<and>
      dom (session_map (snd (create_ipython_session env cp g requested_id auto_import))) =
        insert sid (dom (session_map g)) \<and>
      (\<forall>other. other \<noteq> sid \<longrightarrow>
         session_map (snd (create_ipython_session env cp g requested_id auto_import)) other =
           session_map g other)) \<and>
   (given \<in> dom (session_map g) \<longrightarrow>
      dict_success (fst (create_ipython_session env cp g (Some given) auto_import)) = False \<and>
      session_map (snd (create_ipython_session env cp g (Some given) auto_import)) =
        session_map g)"
proof -
  have "given \<in> dom (session_map g) \<Longrightarrow> chosen_id cp (Some given) \<in> dom (session_map g)"
    by (simp add: chosen_id_def)
  then show ?thesis
    using create_success_fresh [of env cp g requested_id auto_import sid msg imported]
      create_existing_fails [of cp "Some given" g env auto_import]
    by blast
qed

text \<open>
  Witness for C3: in the sample state, a call without an id creates
  \<^verbatim>\<open>session_01234567\<close>, and a call with the id \<^verbatim>\<open>s1\<close>, which exists, fails.
\<close>

theorem create_ipython_session_unique_witness:
  "fst (create_ipython_session sample_env sample_create_probe sample_world None True) =
     SessionCreated ''session_01234567''
       ''IPython session session_01234567 created successfully''
       [''pandas'', ''numpy'', ''json'', ''os'', ''sys'', ''pathlib''] \<and>
   ''session_01234567'' \<notin> dom (session_map sample_world) \<and>
   dom (session_map (snd (create_ipython_session sample_env sample_create_probe sample_world
      None True))) = insert ''session_01234567'' (dom (session_map sample_world)) \<and>
   ''s1'' \<in> dom (session_map sample_world) \<and>
   dict_success (fst (create_ipython_session sample_env sample_create_probe sample_world
      (Some ''s1'') True)) = False \<and>
   session_map (snd (create_ipython_session sample_env sample_create_probe sample_world
      (Some ''s1'') True)) = session_map sample_world"
proof -
  have session: "IPythonSession_init sample_env sample_create_probe ''session_01234567'' True =
     Inr \<lparr>session_id = ''session_01234567'', created_at = ''2024-01-01T00:00:07'',
       last_used = ''2024-01-01T00:00:07'', execution_counter = 0, history = [],
       shell = \<lparr>colors = ''NoColor'', user_ns = []\<rparr>\<rparr>"
    by (simp add: IPythonSession_init_def Let_def sample_env_def sample_create_probe_def
          sample_run_cell_def matplotlib_code_def import_code_def)
  have hex: "take 8 (cp_uuid4_hex sample_create_probe) = ''01234567''"
    by (simp add: sample_create_probe_def)
  have available: "IPYTHON_AVAILABLE sample_env"
    by (simp add: sample_env_def)
  have created:
    "fst (create_ipython_session sample_env sample_create_probe sample_world None True) =
       SessionCreated ''session_01234567''
         ''IPython session session_01234567 created successfully''
         [''pandas'', ''numpy'', ''json'', ''os'', ''sys'', ''pathlib'']"
    unfolding create_ipython_session_def create_ipython_session_body_def tool_try_def
      create_session_def Let_def
    by (simp add: hex session available get_session_manager_def sample_world_def)
  have known: "''s1'' \<in> dom (session_map sample_world)"
    by (simp add: session_map_def sample_world_def)
  note unique = create_ipython_session_unique
      [where env = sample_env and cp = sample_create_probe and g = sample_world
         and requested_id = None and auto_import = True and sid = "''session_01234567''"
         and msg = "''IPython session session_01234567 created successfully''"
         and imported = "[''pandas'', ''numpy'', ''json'', ''os'', ''sys'', ''pathlib'']"
         and given = "''s1''"]
  from unique [THEN conjunct1, THEN mp, OF created]
    unique [THEN conjunct2, THEN mp, OF known] created known
  show ?thesis by simp
qed

subsection \<open>C4: deleting a session\<close>

lemma delete_unknown:
  "sid \<notin> dom (session_map g) \<Longrightarrow>
   delete_ipython_session g sid =
     (Failure (''Session '' @ sid @ '' not found''), Some (get_session_manager g))"
  by (auto simp: delete_ipython_session_def delete_ipython_session_body_def tool_try_def
        delete_session_def sessions_get_session_manager Let_def domIff)

lemma delete_known:
  "sid \<in> dom (session_map g) \<Longrightarrow>
   delete_ipython_session g sid =
     (SessionDeleted (''Session '' @ sid @ '' deleted successfully''),
      Some ((get_session_manager g)\<lparr>sessions := (session_map g)(sid := None)\<rparr>))"
  by (auto simp: delete_ipython_session_def delete_ipython_session_body_def tool_try_def
        delete_session_def sessions_get_session_manager Let_def domIff)

text \<open>
  Claim C4. For a session id that is not in the session map, \<open>delete_ipython_session\<close>
  returns \<open>success\<close> false with the error \<^verbatim>\<open>Session <id> not found\<close> and the map is the
  same after the call. For an id that is in the map it returns \<open>success\<close> true, the id is
  not in the map after the call and every other id is mapped as before.
\<close>

theorem delete_ipython_session_correct:
  "(sid \<notin> dom (session_map g) \<longrightarrow>
      dict_success (fst (delete_ipython_session g sid)) = False \<and>
      dict_error (fst (delete_ipython_session g sid)) = Some (''Session '' @ sid @ '' not found'') \<and>
      session_map (snd (delete_ipython_session g sid)) = session_map g) \<and>
   (sid \<in> dom (session_map g) \<longrightarrow>
      dict_success (fst (delete_ipython_session g sid)) = True \<and>
      sid \<notin> dom (session_map (snd (delete_ipython_session g sid))) \<and>
      (\<forall>other. other \<noteq> sid \<longrightarrow>
         session_map (snd (delete_ipython_session g sid)) other = session_map g other))"
proof (cases "sid \<in> dom (session_map g)")
  case True
  then show ?thesis
    by (simp add: delete_known session_map_Some)
next
  case False
  then show ?thesis
    by (simp add: delete_unknown session_map_Some sessions_get_session_manager)
qed

text \<open>
  Witness for C4: the session \<^verbatim>\<open>s1\<close> of the sample state is deleted, and deleting it from
  the state so reached reports that it is not found.
\<close>

theorem delete_ipython_session_correct_witness:
  "''s1'' \<in> dom (session_map sample_world) \<and>
   dict_success (fst (delete_ipython_session sample_world ''s1'')) = True \<and>
   ''s1'' \<notin> dom (session_map (snd (delete_ipython_session sample_world ''s1''))) \<and>
   ''s2'' \<notin> dom (session_map sample_world) \<and>
   dict_error (fst (delete_ipython_session sample_world ''s2'')) = Some ''Session s2 not found'' \<and>
   session_map (snd (delete_ipython_session sample_world ''s2'')) = session_map sample_world"
proof -
  have a: "''s1'' \<in> dom (session_map sample_world)"
    by (simp add: session_map_def sample_world_def)
  have b: "''s2'' \<notin> dom (session_map sample_world)"
    by (simp add: session_map_def sample_world_def)
  from a b
    delete_ipython_session_correct [of "''s1''" sample_world]
    delete_ipython_session_correct [of "''s2''" sample_world]
  show ?thesis by simp
qed

subsection \<open>C5: loading a file that does not exist\<close>

lemma loader_except_not_found:
  "t \<in> {T_load_csv_file, T_load_excel_file, T_load_json_file} \<Longrightarrow>
   tool_except t (raise_exn FileNotFoundError msg) = Failure msg"
  by (simp add: tool_except_def catches_FileNotFoundError_def isinstance_FileNotFoundError_def
        raise_exn_def)

text \<open>
  Claim C5, as amended. With the data-frame library available (and, for
  \<open>load_excel_file\<close>, an Excel engine as well), for every file path that does not exist
  and every existing session, \<open>load_csv_file\<close>, \<open>load_excel_file\<close> and \<open>load_json_file\<close>
  return \<open>success\<close> false with the error \<^verbatim>\<open>File not found: <path>\<close>, and the state of the
  sessions, the namespace of the target session included, is the same after the call.
\<close>

theorem load_missing_file_not_found:
  assumes "session_map g sid = Some s"
    and "\<not> path_exists env file_path"
    and "PANDAS_AVAILABLE env"
  shows
    "load_csv_file env lp g file_path sid variable_name encoding =
       (Failure (''File not found: '' @ file_path), g) \<and>
     load_json_file env lp g file_path sid variable_name =
       (Failure (''File not found: '' @ file_path), g) \<and>
     (EXCEL_AVAILABLE env \<longrightarrow>
        load_excel_file env lp g file_path sid variable_name sheet_name =
          (Failure (''File not found: '' @ file_path), g))"
  using assms
  by (simp add: load_csv_file_def load_csv_file_body_def load_json_file_def
        load_json_file_body_def load_excel_file_def load_excel_file_body_def
        tool_try_def Let_def get_session_found [OF assms(1)] world_of_existing [OF assms(1)]
        load_csv_missing load_json_missing load_excel_missing loader_except_not_found)

text \<open>
  Witness for C5: the file \<^verbatim>\<open>missing.csv\<close> does not exist in the sample environment.
\<close>

theorem load_missing_file_not_found_witness:
  "session_map sample_world ''s1'' = Some sample_session \<and>
   \<not> path_exists sample_env ''missing.csv'' \<and>
   PANDAS_AVAILABLE sample_env \<and>
   load_csv_file sample_env sample_load_probe sample_world ''missing.csv'' ''s1'' None ''auto'' =
     (Failure ''File not found: missing.csv'', sample_world)"
proof -
  have a: "session_map sample_world ''s1'' = Some sample_session"
    by (simp add: session_map_def sample_world_def)
  have b: "\<not> path_exists sample_env ''missing.csv''"
    by (simp add: sample_env_def)
  have c: "PANDAS_AVAILABLE sample_env"
    by (simp add: sample_env_def)
  from load_missing_file_not_found [OF a b c, of sample_load_probe None "''auto''"] a b c
  show ?thesis by simp
qed

text \<open>
  Claim C5, as stated, fails. Where the import of the data-frame library has failed, the
  guard at the head of \<open>load_csv_file\<close> answers before the file is looked at, and the
  error for a file that does not exist is not a file-not-found error.
\<close>

theorem load_missing_file_without_pandas:
  "session_map sample_world ''s1'' = Some sample_session \<and>
   \<not> path_exists (sample_env\<lparr>PANDAS_AVAILABLE := False\<rparr>) ''missing.csv'' \<and>
   fst (load_csv_file (sample_env\<lparr>PANDAS_AVAILABLE := False\<rparr>) sample_load_probe sample_world
     ''missing.csv'' ''s1'' None ''auto'') =
     Failure ''pandas is not available. Please install with: pip install pandas numpy'' \<and>
   fst (load_csv_file (sample_env\<lparr>PANDAS_AVAILABLE := False\<rparr>) sample_load_probe sample_world
     ''missing.csv'' ''s1'' None ''auto'') \<noteq> Failure (''File not found: '' @ ''missing.csv'')"
  by (simp add: session_map_def sample_world_def sample_env_def load_csv_file_def
        load_csv_file_body_def tool_try_def)

subsection \<open>C10: the generated variable name\<close>




















subsection \<open>C2: exceptions in the tools\<close>









end
